theory Spec2Isabelle
  imports Main "HOL-Library.Sublist"
begin



section \<open>JavaScript values used by the scraper\<close>

text \<open>
  Strings are lists of characters. A JavaScript value that may be \<^verbatim>\<open>undefined\<close>
  is an \<open>option\<close>. In a condition, \<^verbatim>\<open>undefined\<close> and the empty string are falsy
  and every other string is truthy.
\<close>

fun truthy :: "string option \<Rightarrow> bool" where
  "truthy None = False"
| "truthy (Some s) = (s \<noteq> [])"

text \<open>\<^verbatim>\<open>Number.prototype.toString()\<close> on an integer: its decimal digits.\<close>

definition digitChar :: "nat \<Rightarrow> char" where
  "digitChar n = ''0123456789'' ! (n mod 10)"

function digits :: "nat \<Rightarrow> string" where
  "digits n = (if n < 10 then [digitChar n] else digits (n div 10) @ [digitChar n])"
  by pat_completeness auto
termination
  by (relation "measure id") auto

declare digits.simps [simp del]

definition numToString :: "int \<Rightarrow> string" where
  "numToString i = (if i < 0 then CHR ''-'' # digits (nat (- i)) else digits (nat i))"

text \<open>\<^verbatim>\<open>s.padStart(n, c)\<close> for a one-character pad string.\<close>

definition padStart :: "nat \<Rightarrow> char \<Rightarrow> string \<Rightarrow> string" where
  "padStart n c s = replicate (n - length s) c @ s"

text \<open>
  The class \<^verbatim>\<open>\s\<close> of a regular expression, on the ASCII range: tab, line feed,
  vertical tab, form feed, carriage return and space.
\<close>

definition isSpace :: "char \<Rightarrow> bool" where
  "isSpace c = (c = CHR 0x09 \<or> c = CHR 0x0A \<or> c = CHR 0x0B \<or> c = CHR 0x0C
     \<or> c = CHR 0x0D \<or> c = CHR '' '')"

text \<open>
  \<^verbatim>\<open>s.replace(/\s+/g, '-')\<close>: scanning from the left, every maximal run of
  whitespace becomes one hyphen.
\<close>

function replaceWhitespace :: "string \<Rightarrow> string" where
  "replaceWhitespace [] = []"
| "replaceWhitespace (c # cs) =
     (if isSpace c then CHR ''-'' # replaceWhitespace (dropWhile isSpace cs)
      else c # replaceWhitespace cs)"
  by pat_completeness auto
termination
  by (relation "measure length") (auto simp: less_Suc_eq_le length_dropWhile_le)

text \<open>\<^verbatim>\<open>s.replace(/\//g, '-')\<close>: every slash becomes a hyphen.\<close>

definition replaceSlashes :: "string \<Rightarrow> string" where
  "replaceSlashes s = map (\<lambda>c. if c = CHR ''/'' then CHR ''-'' else c) s"

section \<open>Dates\<close>

text \<open>
  A valid \<^verbatim>\<open>Date\<close> object is kept by its local calendar fields, named after the
  getters that read them: \<open>getMonth\<close> counts from 0, \<open>getDate\<close> from 1. Every
  \<^verbatim>\<open>Date\<close> of the scraper is created from a date without a time, so its time of
  day is local midnight and stays there. An Invalid Date is \<open>None\<close>.
\<close>

record jsdate =
  getFullYear :: int
  getMonth :: nat
  getDate :: nat

definition isLeapYear :: "int \<Rightarrow> bool" where
  "isLeapYear y = ((y mod 4 = 0 \<and> y mod 100 \<noteq> 0) \<or> y mod 400 = 0)"

definition daysInMonth :: "int \<Rightarrow> nat \<Rightarrow> nat" where
  "daysInMonth y m =
     (if m = 1 then (if isLeapYear y then 29 else 28)
      else if m = 3 \<or> m = 5 \<or> m = 8 \<or> m = 10 then 30
      else 31)"

fun daysBeforeMonth :: "int \<Rightarrow> nat \<Rightarrow> nat" where
  "daysBeforeMonth y 0 = 0"
| "daysBeforeMonth y (Suc m) = daysBeforeMonth y m + daysInMonth y m"

text \<open>ECMAScript's \<^verbatim>\<open>DayFromYear\<close>: the day number of 1 January of year \<open>y\<close>.\<close>

definition dayFromYear :: "int \<Rightarrow> int" where
  "dayFromYear y =
     365 * (y - 1970) + (y - 1969) div 4 - (y - 1901) div 100 + (y - 1601) div 400"

text \<open>
  The time value of a date, in days: what \<^verbatim>\<open>date <= end\<close> compares (both sides are
  at local midnight).
\<close>

definition timeValue :: "jsdate \<Rightarrow> int" where
  "timeValue d =
     dayFromYear (getFullYear d) + int (daysBeforeMonth (getFullYear d) (getMonth d))
       + int (getDate d) - 1"

text \<open>
  ECMAScript's \<^verbatim>\<open>MakeDay(year, month, dt)\<close>, read back as calendar fields: a day
  of the month beyond the month's end carries into the following months, one below 1
  borrows from the preceding ones.
\<close>

function makeDay :: "int \<Rightarrow> nat \<Rightarrow> int \<Rightarrow> jsdate" where
  "makeDay y m dt =
     (if dt < 1 then
        (if m = 0 then makeDay (y - 1) 11 (dt + 31)
         else makeDay y (m - 1) (dt + int (daysInMonth y (m - 1))))
      else if int (daysInMonth y m) < dt then
        (if m = 11 then makeDay (y + 1) 0 (dt - 31)
         else makeDay y (m + 1) (dt - int (daysInMonth y m)))
      else \<lparr>getFullYear = y, getMonth = m, getDate = nat dt\<rparr>)"
  by pat_completeness auto
termination
  by (relation "measure (\<lambda>(y, m, dt). if dt < 1 then nat (33 - dt) else nat dt)")
     (auto simp: daysInMonth_def)

declare makeDay.simps [simp del]

text \<open>
  The fields of a \<^verbatim>\<open>Date\<close> object always name a day of the calendar: every
  value that \<open>makeDay\<close> returns for a month below 12 does.
\<close>

definition validDate :: "jsdate \<Rightarrow> bool" where
  "validDate d =
     (getMonth d < 12 \<and> 1 \<le> getDate d
        \<and> getDate d \<le> daysInMonth (getFullYear d) (getMonth d))"

text \<open>\<^verbatim>\<open>date.setDate(dt)\<close>\<close>

definition setDate :: "jsdate \<Rightarrow> int \<Rightarrow> jsdate" where
  "setDate d dt = makeDay (getFullYear d) (getMonth d) dt"

text \<open>
  \<^verbatim>\<open>new Date(s)\<close> for a string of the form \<^verbatim>\<open>MM/DD/YYYY\<close>, the form
  \<^verbatim>\<open>ScrapeConfig\<close> documents, as the V8 engine reads it: the month is 1 to 12, the
  day 1 to 31 (a day past the end of the month carries over), a year below 50 is taken
  in the 2000s and one from 50 to 99 in the 1900s. A string of another form is read as
  an Invalid Date here.
\<close>

definition isDigit :: "char \<Rightarrow> bool" where
  "isDigit c = (c \<in> set ''0123456789'')"

definition digitValue :: "char \<Rightarrow> nat" where
  "digitValue c = (of_char c) - 48"

definition parseDigits :: "string \<Rightarrow> nat" where
  "parseDigits s = foldl (\<lambda>n c. 10 * n + digitValue c) 0 s"

definition legacyYear :: "nat \<Rightarrow> int" where
  "legacyYear y = (if y < 50 then int y + 2000 else if y < 100 then int y + 1900 else int y)"

definition isMMDDYYYY :: "string \<Rightarrow> bool" where
  "isMMDDYYYY s =
     (length s = 10 \<and> s ! 2 = CHR ''/'' \<and> s ! 5 = CHR ''/''
        \<and> list_all isDigit (take 2 s @ take 2 (drop 3 s) @ drop 6 s))"

definition newDate :: "string \<Rightarrow> jsdate option" where
  "newDate s =
     (if isMMDDYYYY s
      then
        (let month = parseDigits (take 2 s);
             day = parseDigits (take 2 (drop 3 s));
             year = parseDigits (drop 6 s)
         in if 1 \<le> month \<and> month \<le> 12 \<and> 1 \<le> day \<and> day \<le> 31
            then Some (makeDay (legacyYear year) (month - 1) (int day))
            else None)
      else None)"

section \<open>LandmarkScraper.generateDateRange\<close>

text \<open>The string pushed by one iteration of the loop.\<close>

definition formatDate :: "jsdate \<Rightarrow> string" where
  "formatDate date =
     (let month = padStart 2 (CHR ''0'') (digits (getMonth date + 1));
          day = padStart 2 (CHR ''0'') (digits (getDate date));
          year = getFullYear date
      in month @ ''/'' @ day @ ''/'' @ numToString year)"

text \<open>
  The loop of \<open>generateDateRange\<close> ends because each \<^verbatim>\<open>setDate\<close> moves the
  time value on by one day. The facts about the calendar that this needs come first.
\<close>

lemma div_plus1:
  fixes a k :: int
  assumes "0 < k"
  shows "(a + 1) div k = a div k + (if (a + 1) mod k = 0 then 1 else 0)"
proof (cases "(a + 1) mod k = 0")
  case True
  have "a = k * ((a + 1) div k - 1) + (k - 1)"
    using True div_mult_mod_eq [of "a + 1" k] by (simp add: algebra_simps)
  then have "a div k = (a + 1) div k - 1"
    using assms int_div_pos_eq [of a k "(a + 1) div k - 1" "k - 1"] by simp
  with True show ?thesis by simp
next
  case False
  have r: "0 \<le> (a + 1) mod k" "(a + 1) mod k < k"
    using assms by simp_all
  have "a = k * ((a + 1) div k) + ((a + 1) mod k - 1)"
    using div_mult_mod_eq [of "a + 1" k] by (simp add: algebra_simps)
  then have "a div k = (a + 1) div k"
    using assms r False int_div_pos_eq [of a k "(a + 1) div k" "(a + 1) mod k - 1"] by simp
  with False show ?thesis by simp
qed

lemma mod_shift: "(y - k * c) mod k = y mod (k::int)"
  using mod_mult_self2 [of y k "- c"] by simp

lemma year_step_sum:
  fixes A B C :: int
  assumes "A' = A + a" "B' = B + b" "C' = C + c"
  shows "365 * (y + 1 - 1970) + A' - B' + C' = 365 * (y - 1970) + A - B + C + (365 + a - b + c)"
  using assms by simp

lemma leap_count:
  assumes "p400 \<Longrightarrow> p100" "p100 \<Longrightarrow> p4"
  shows "(365::int) + (if p4 then 1 else 0) - (if p100 then 1 else 0) + (if p400 then 1 else 0)
    = (if (p4 \<and> \<not> p100) \<or> p400 then 366 else 365)"
  using assms by auto

lemma dayFromYear_Suc:
  "dayFromYear (y + 1) = dayFromYear y + (if isLeapYear y then 366 else 365)"
proof -
  have a: "(y + 1 - 1969) div 4 = (y - 1969) div 4 + (if y mod 4 = 0 then 1 else 0)"
    using div_plus1 [of 4 "y - 1969"] mod_shift [of y 4 492] by (simp add: algebra_simps)
  have b: "(y + 1 - 1901) div 100 = (y - 1901) div 100 + (if y mod 100 = 0 then 1 else 0)"
    using div_plus1 [of 100 "y - 1901"] mod_shift [of y 100 19] by (simp add: algebra_simps)
  have c: "(y + 1 - 1601) div 400 = (y - 1601) div 400 + (if y mod 400 = 0 then 1 else 0)"
    using div_plus1 [of 400 "y - 1601"] mod_shift [of y 400 4] by (simp add: algebra_simps)
  have "(100::int) dvd 400" "(4::int) dvd 100" by simp_all
  then have d: "y mod 400 = 0 \<Longrightarrow> y mod 100 = 0" "y mod 100 = 0 \<Longrightarrow> y mod 4 = 0"
    using dvd_trans [of 100 400 y] dvd_trans [of 4 100 y] by (simp_all add: mod_eq_0_iff_dvd)
  show ?thesis
    unfolding dayFromYear_def isLeapYear_def
    by (simp only: year_step_sum [OF a b c] leap_count [OF d])
qed

lemma dayFromYear_pred:
  "dayFromYear (y - 1) = dayFromYear y - (if isLeapYear (y - 1) then 366 else 365)"
  using dayFromYear_Suc [of "y - 1"] by simp

lemma daysBeforeMonth_11: "daysBeforeMonth y 11 = (if isLeapYear y then 335 else 334)"
  by (simp add: eval_nat_numeral daysInMonth_def)

lemma timeValue_makeDay:
  "timeValue (makeDay y m dt) = dayFromYear y + int (daysBeforeMonth y m) + dt - 1"
proof (induction y m dt rule: makeDay.induct)
  case (1 y m dt)
  show ?case
  proof (cases "dt < 1")
    case True
    show ?thesis
    proof (cases "m = 0")
      case True
      with \<open>dt < 1\<close> 1(1) show ?thesis
        by (subst makeDay.simps) (simp add: dayFromYear_pred daysBeforeMonth_11)
    next
      case False
      then obtain k where "m = Suc k" by (cases m) auto
      with \<open>dt < 1\<close> 1(2) show ?thesis
        by (subst makeDay.simps) simp
    qed
  next
    case False
    show ?thesis
    proof (cases "int (daysInMonth y m) < dt")
      case over: True
      show ?thesis
      proof (cases "m = 11")
        case True
        with False over 1(3) show ?thesis
          by (subst makeDay.simps) (simp add: dayFromYear_Suc daysBeforeMonth_11)
      next
        case False
        with \<open>\<not> dt < 1\<close> over 1(4) show ?thesis
          by (subst makeDay.simps) simp
      qed
    next
      case inside: False
      with False show ?thesis
        by (subst makeDay.simps) (simp add: timeValue_def)
    qed
  qed
qed

lemma timeValue_setDate_next:
  "timeValue (setDate date (int (getDate date) + 1)) = timeValue date + 1"
  unfolding setDate_def timeValue_makeDay by (simp add: timeValue_def)

text \<open>
  The loop of \<^verbatim>\<open>generateDateRange\<close>:
  \<^verbatim>\<open>for (let date = new Date(start); date <= end; date.setDate(date.getDate() + 1))\<close>.
\<close>

function dateLoop :: "jsdate \<Rightarrow> jsdate \<Rightarrow> string list \<Rightarrow> string list" where
  "dateLoop date end dates =
     (if timeValue date \<le> timeValue end
      then dateLoop (setDate date (int (getDate date) + 1)) end (dates @ [formatDate date])
      else dates)"
  by pat_completeness auto
termination
  by (relation "measure (\<lambda>(date, end, dates). nat (timeValue end - timeValue date + 1))")
     (auto simp: timeValue_setDate_next)

declare dateLoop.simps [simp del]

text \<open>
  A comparison with an Invalid Date is false, so the loop does not run when either
  string fails to parse.
\<close>

definition generateDateRange :: "string \<Rightarrow> string \<Rightarrow> string list" where
  "generateDateRange startDate endDate =
     (case (newDate startDate, newDate endDate) of
        (Some start, Some end) \<Rightarrow> dateLoop start end []
      | _ \<Rightarrow> [])"

section \<open>Properties of the date enumeration\<close>

lemma daysInMonth_pos: "1 \<le> daysInMonth y m"
  by (simp add: daysInMonth_def)

lemma validDate_makeDay: "m < 12 \<Longrightarrow> validDate (makeDay y m dt)"
proof (induction y m dt rule: makeDay.induct)
  case (1 y m dt)
  show ?case
  proof (cases "dt < 1")
    case True
    with 1(1,2,5) show ?thesis
      by (subst makeDay.simps) (cases "m = 0"; simp)
  next
    case False
    show ?thesis
    proof (cases "int (daysInMonth y m) < dt")
      case True
      with False 1(3,4,5) show ?thesis
        by (subst makeDay.simps) (cases "m = 11"; simp)
    next
      case inside: False
      with False 1(5) show ?thesis
        by (subst makeDay.simps) (simp add: validDate_def nat_le_iff)
    qed
  qed
qed







lemma validDate_setDate: "validDate d \<Longrightarrow> validDate (setDate d dt)"
  unfolding setDate_def by (rule validDate_makeDay) (simp add: validDate_def)


















lemma generateDateRange_inverted:
  assumes "newDate startDate = Some start" and "newDate endDate = Some end"
    and "timeValue end < timeValue start"
  shows "generateDateRange startDate endDate = []"
  using assms by (simp add: generateDateRange_def dateLoop.simps)





section \<open>Promises, exceptions and the collaborators\<close>

text \<open>
  A thrown value is either an \<^verbatim>\<open>Error\<close> object, kept by its message, or any other
  value, kept by what \<^verbatim>\<open>String(value)\<close> returns for it.
\<close>

datatype exn = Error string | Thrown string

text \<open>\<^verbatim>\<open>error instanceof Error ? error.message : String(error)\<close>\<close>

fun errorMessage :: "exn \<Rightarrow> string" where
  "errorMessage (Error message) = message"
| "errorMessage (Thrown str) = str"

text \<open>
  An awaited call runs in a state and either rejects with a thrown value (\<open>Inl\<close>) or
  resolves with a result (\<open>Inr\<close>); both leave a new state.
\<close>

type_synonym ('s, 'a) async = "'s \<Rightarrow> (exn + 'a) \<times> 's"

definition resolve :: "'a \<Rightarrow> ('s, 'a) async" where
  "resolve x s = (Inr x, s)"

definition reject :: "exn \<Rightarrow> ('s, 'a) async" where
  "reject e s = (Inl e, s)"

text \<open>\<^verbatim>\<open>const x = await m; f(x)\<close>: a rejection of \<open>m\<close> skips \<open>f\<close>.\<close>

definition await :: "('s, 'a) async \<Rightarrow> ('a \<Rightarrow> ('s, 'b) async) \<Rightarrow> ('s, 'b) async" where
  "await m f s = (case m s of (Inl e, s') \<Rightarrow> (Inl e, s') | (Inr x, s') \<Rightarrow> f x s')"

text \<open>\<^verbatim>\<open>try { m } catch (error) { h(error) }\<close>\<close>

definition tryCatch :: "('s, 'a) async \<Rightarrow> (exn \<Rightarrow> ('s, 'a) async) \<Rightarrow> ('s, 'a) async" where
  "tryCatch m h s = (case m s of (Inl e, s') \<Rightarrow> h e s' | (Inr x, s') \<Rightarrow> (Inr x, s'))"

text \<open>Elements of the page: \<^verbatim>\<open>page.getByRole(role, { name })\<close> and \<^verbatim>\<open>page.locator(selector)\<close>.\<close>

datatype locator = GetByRole string string | Locator string

type_synonym buffer = string

text \<open>The input of a \<^verbatim>\<open>PutObjectCommand\<close>.\<close>

record put_object =
  Bucket :: "string option"
  Key :: string
  Body :: buffer
  ContentType :: string
  Metadata :: "(string \<times> string) list"

text \<open>
  Stagehand, the page it drives, the S3 client and the clock are not part of the
  repository. They are a parameter of the model: a record of operations on a world
  \<open>'w\<close> that the scraper cannot see into. Each awaited operation may reject. A
  download and its stream are handles (numbers). \<^verbatim>\<open>init\<close> resolves with the
  session information, which the scraper only logs, so it is \<open>()\<close> here; the
  \<^verbatim>\<open>console\<close> calls are left out. The clock is read without a call that could
  fail: \<^verbatim>\<open>new Date().toISOString()\<close> and \<^verbatim>\<open>Date.now()\<close>.
\<close>

record 'w sdk =
  stagehand_init :: "('w, unit) async"
  stagehand_close :: "('w, unit) async"
  page_goto :: "string \<Rightarrow> ('w, unit) async"
  page_waitForTimeout :: "nat \<Rightarrow> ('w, unit) async"
  page_waitForEvent :: "string \<Rightarrow> nat \<Rightarrow> ('w, nat) async"
  page_goBack :: "('w, unit) async"
  locator_isVisible :: "locator \<Rightarrow> nat \<Rightarrow> ('w, bool) async"
  locator_click :: "locator \<Rightarrow> ('w, unit) async"
  locator_press :: "locator \<Rightarrow> string \<Rightarrow> ('w, unit) async"
  locator_fill :: "locator \<Rightarrow> string \<Rightarrow> ('w, unit) async"
  download_createReadStream :: "nat \<Rightarrow> ('w, nat) async"
  stream_read :: "nat \<Rightarrow> ('w, buffer) async"
  s3Client_send :: "put_object \<Rightarrow> ('w, unit) async"
  Date_toISOString :: "'w \<Rightarrow> string"
  Date_now :: "'w \<Rightarrow> nat"

text \<open>The calls made to the collaborators, in the order they are made.\<close>

datatype call =
    Init | Close | Goto string | WaitForTimeout nat | WaitForEvent string nat | GoBack
  | IsVisible locator nat | Click locator | Press locator string | Fill locator string
  | CreateReadStream nat | ReadStream nat | Send put_object

text \<open>What one unit contributes to the final report, and what \<open>scrapeSingleDay\<close> returns.\<close>

record unit_fields =
  s3Path :: "string option"
  error :: "string option"

record scrape_result = unit_fields +
  success' :: bool

record unit_result = unit_fields +
  date :: string
  documentType :: string

text \<open>
  The state of one run: the world of the collaborators, the calls made so far, and the
  \<^verbatim>\<open>results\<close> array of \<open>execute\<close>, which is declared before its \<^verbatim>\<open>try\<close> block and
  so is visible in its \<^verbatim>\<open>catch\<close> block.
\<close>

record 'w state =
  world :: 'w
  calls :: "call list"
  resultsSoFar :: "unit_result list"

definition perform :: "call \<Rightarrow> ('w, 'a) async \<Rightarrow> ('w state, 'a) async" where
  "perform c operation s =
     (case operation (world s) of
        (r, w) \<Rightarrow> (r, s\<lparr>world := w, calls := calls s @ [c]\<rparr>))"

definition init :: "'w sdk \<Rightarrow> ('w state, unit) async" where
  "init sdk = perform Init (stagehand_init sdk)"

definition close :: "'w sdk \<Rightarrow> ('w state, unit) async" where
  "close sdk = perform Close (stagehand_close sdk)"

definition goto :: "'w sdk \<Rightarrow> string \<Rightarrow> ('w state, unit) async" where
  "goto sdk url = perform (Goto url) (page_goto sdk url)"

definition waitForTimeout :: "'w sdk \<Rightarrow> nat \<Rightarrow> ('w state, unit) async" where
  "waitForTimeout sdk ms = perform (WaitForTimeout ms) (page_waitForTimeout sdk ms)"

definition waitForEvent :: "'w sdk \<Rightarrow> string \<Rightarrow> nat \<Rightarrow> ('w state, nat) async" where
  "waitForEvent sdk event timeout =
     perform (WaitForEvent event timeout) (page_waitForEvent sdk event timeout)"

definition goBack :: "'w sdk \<Rightarrow> ('w state, unit) async" where
  "goBack sdk = perform GoBack (page_goBack sdk)"

definition isVisible :: "'w sdk \<Rightarrow> locator \<Rightarrow> nat \<Rightarrow> ('w state, bool) async" where
  "isVisible sdk l timeout = perform (IsVisible l timeout) (locator_isVisible sdk l timeout)"

definition click :: "'w sdk \<Rightarrow> locator \<Rightarrow> ('w state, unit) async" where
  "click sdk l = perform (Click l) (locator_click sdk l)"

definition press :: "'w sdk \<Rightarrow> locator \<Rightarrow> string \<Rightarrow> ('w state, unit) async" where
  "press sdk l key = perform (Press l key) (locator_press sdk l key)"

definition fill :: "'w sdk \<Rightarrow> locator \<Rightarrow> string \<Rightarrow> ('w state, unit) async" where
  "fill sdk l text = perform (Fill l text) (locator_fill sdk l text)"

definition createReadStream :: "'w sdk \<Rightarrow> nat \<Rightarrow> ('w state, nat) async" where
  "createReadStream sdk download =
     perform (CreateReadStream download) (download_createReadStream sdk download)"

text \<open>
  The promise that collects the chunks of the stream: it resolves with their
  concatenation at the end of the stream and rejects when the stream reports an error.
\<close>

definition readStream :: "'w sdk \<Rightarrow> nat \<Rightarrow> ('w state, buffer) async" where
  "readStream sdk stream = perform (ReadStream stream) (stream_read sdk stream)"

definition send :: "'w sdk \<Rightarrow> put_object \<Rightarrow> ('w state, unit) async" where
  "send sdk command = perform (Send command) (s3Client_send sdk command)"

section \<open>S3Uploader.uploadFile\<close>

text \<open>The variables of the process environment that the two classes read.\<close>

record environment =
  S3_BUCKET_NAME :: "string option"
  BROWSERBASE_SESSION_ID :: "string option"

text \<open>A value that may be \<^verbatim>\<open>undefined\<close>, inside a template literal.\<close>

fun template :: "string option \<Rightarrow> string" where
  "template None = ''undefined''"
| "template (Some s) = s"

definition toLowerCase :: "string \<Rightarrow> string" where
  "toLowerCase s =
     map (\<lambda>c. if 65 \<le> (of_char c :: nat) \<and> (of_char c :: nat) \<le> 90
              then char_of (of_char c + 32 :: nat) else c) s"

definition endsWith :: "string \<Rightarrow> string \<Rightarrow> bool" where
  "endsWith s searchString =
     (length searchString \<le> length s
        \<and> drop (length s - length searchString) s = searchString)"

definition uploadFile :: "'w sdk \<Rightarrow> environment \<Rightarrow> buffer \<Rightarrow> string \<Rightarrow> ('w state, string) async" where
  "uploadFile sdk env fileBuffer fileName s =
     (let bucketName = S3_BUCKET_NAME env;
          dateFolder = takeWhile (\<lambda>c. c \<noteq> CHR ''T'') (Date_toISOString sdk (world s));
          timestamp = Date_now sdk (world s);
          key = ''landmark-scraper/'' @ dateFolder @ ''/'' @ digits timestamp @ ''-'' @ fileName;
          contentType =
            (if endsWith (toLowerCase fileName) ''.csv'' then ''text/csv''
             else ''application/pdf'');
          command = \<lparr>Bucket = bucketName, Key = key, Body = fileBuffer,
            ContentType = contentType,
            Metadata = [(''source'', ''king-county-landmark''),
              (''timestamp'', Date_toISOString sdk (world s)),
              (''fileName'', fileName),
              (''scraperSession'',
                 (if truthy (BROWSERBASE_SESSION_ID env)
                  then template (BROWSERBASE_SESSION_ID env) else ''unknown''))]\<rparr>
      in tryCatch
           (await (send sdk command) (\<lambda>_.
            resolve (''s3://'' @ template bucketName @ ''/'' @ key)))
           (\<lambda>error.
            reject (Error (''Failed to upload to S3: '' @ errorMessage error))) s)"

section \<open>LandmarkScraper\<close>

record ScrapeConfig =
  startDate :: string
  endDate :: string
  documentTypes :: "string list"
  county :: string

definition fillDateField :: "'w sdk \<Rightarrow> string \<Rightarrow> string \<Rightarrow> ('w state, unit) async" where
  "fillDateField sdk selector dateValue =
     (let field = GetByRole ''textbox'' selector in
      await (click sdk field) (\<lambda>_.
      await (press sdk field ''Control+a'') (\<lambda>_.
      await (press sdk field ''Delete'') (\<lambda>_.
      await (fill sdk field dateValue) (\<lambda>_.
      waitForTimeout sdk 500)))))"

text \<open>The name of the exported file, as line 149 of the scraper builds it.\<close>

definition fileName :: "ScrapeConfig \<Rightarrow> string \<Rightarrow> string \<Rightarrow> string" where
  "fileName config documentType' date' =
     county config @ ''-'' @ replaceWhitespace documentType' @ ''-'' @ replaceSlashes date'
       @ ''.csv''"

text \<open>
  The \<^verbatim>\<open>try\<close> block of \<open>scrapeSingleDay\<close>, statement by statement. The check
  for \<^verbatim>\<open>no records found\<close> has its own \<^verbatim>\<open>.catch(() => false)\<close>. The promise
  of the download event is created before the click on the button of the modal and
  awaited after it; the model makes the call where its result is awaited, which is
  where a rejection of it is thrown.
\<close>

definition scrapeSingleDayTry ::
  "'w sdk \<Rightarrow> environment \<Rightarrow> ScrapeConfig \<Rightarrow> string \<Rightarrow> string \<Rightarrow> ('w state, scrape_result) async"
where
  "scrapeSingleDayTry sdk env config date' documentType' =
     (let documentSearchLink = GetByRole ''link'' ''Document Search'' in
      await (isVisible sdk documentSearchLink 5000) (\<lambda>visible.
      await (if visible
             then await (click sdk documentSearchLink) (\<lambda>_. waitForTimeout sdk 2000)
             else resolve ()) (\<lambda>_.
      let docTypeField = GetByRole ''textbox'' ''Document Type *'' in
      await (click sdk docTypeField) (\<lambda>_.
      await (press sdk docTypeField ''Control+a'') (\<lambda>_.
      await (fill sdk docTypeField documentType') (\<lambda>_.
      await (waitForTimeout sdk 1000) (\<lambda>_.
      await (fillDateField sdk ''Begin Date'' date') (\<lambda>_.
      await (fillDateField sdk ''End Date'' date') (\<lambda>_.
      await (click sdk (GetByRole ''link'' '' Submit'')) (\<lambda>_.
      await (waitForTimeout sdk 5000) (\<lambda>_.
      await (tryCatch (isVisible sdk (Locator ''text=/no records found/i'') 3000)
               (\<lambda>_. resolve False)) (\<lambda>noResultsText.
      if noResultsText
      then resolve \<lparr>s3Path = Some ''no-records'', error = None, success' = True\<rparr>
      else
        let exportButton = GetByRole ''link'' '' Export'' in
        await (isVisible sdk exportButton 5000) (\<lambda>exportVisible.
        if \<not> exportVisible
        then resolve \<lparr>s3Path = Some ''no-records'', error = None, success' = True\<rparr>
        else
          await (click sdk exportButton) (\<lambda>_.
          await (waitForTimeout sdk 2000) (\<lambda>_.
          await (click sdk (Locator ''#exportResultsModalButton'')) (\<lambda>_.
          await (waitForEvent sdk ''download'' 30000) (\<lambda>download.
          await (createReadStream sdk download) (\<lambda>stream.
          await (readStream sdk stream) (\<lambda>buffer.
          await (uploadFile sdk env buffer (fileName config documentType' date')) (\<lambda>path.
          await (goBack sdk) (\<lambda>_.
          await (waitForTimeout sdk 2000) (\<lambda>_.
          resolve \<lparr>s3Path = Some path, error = None, success' = True\<rparr>
          ))))))))))))))))))))))"

text \<open>\<open>scrapeSingleDay\<close>: the \<^verbatim>\<open>try\<close> block under its \<^verbatim>\<open>catch\<close>.\<close>

definition scrapeSingleDay ::
  "'w sdk \<Rightarrow> environment \<Rightarrow> ScrapeConfig \<Rightarrow> string \<Rightarrow> string \<Rightarrow> ('w state, scrape_result) async"
where
  "scrapeSingleDay sdk env config date' documentType' =
     tryCatch (scrapeSingleDayTry sdk env config date' documentType')
       (\<lambda>error. resolve \<lparr>s3Path = None, error = Some (errorMessage error), success' = False\<rparr>)"

text \<open>\<^verbatim>\<open>results.push(r)\<close>\<close>

definition push :: "unit_result \<Rightarrow> ('w state, unit) async" where
  "push r s = (Inr (), s\<lparr>resultsSoFar := resultsSoFar s @ [r]\<rparr>)"

text \<open>The inner loop of \<open>execute\<close>, over the document types of one day.\<close>

fun forDocumentTypes ::
  "'w sdk \<Rightarrow> environment \<Rightarrow> ScrapeConfig \<Rightarrow> string \<Rightarrow> string list \<Rightarrow> ('w state, unit) async"
where
  "forDocumentTypes sdk env config date' [] = resolve ()"
| "forDocumentTypes sdk env config date' (documentType' # rest) =
     await (scrapeSingleDay sdk env config date' documentType') (\<lambda>result.
     await (push \<lparr>s3Path = s3Path result, error = error result,
                  date = date', documentType = documentType'\<rparr>) (\<lambda>_.
     await (waitForTimeout sdk 2000) (\<lambda>_.
     forDocumentTypes sdk env config date' rest)))"

text \<open>The outer loop, over the days.\<close>

fun forDates ::
  "'w sdk \<Rightarrow> environment \<Rightarrow> ScrapeConfig \<Rightarrow> string list \<Rightarrow> ('w state, unit) async"
where
  "forDates sdk env config [] = resolve ()"
| "forDates sdk env config (date' # rest) =
     await (forDocumentTypes sdk env config date' (documentTypes config)) (\<lambda>_.
     forDates sdk env config rest)"

record summary =
  total :: nat
  successful :: nat
  failed :: nat

record execution_result =
  success :: bool
  results :: "unit_result list"
  summary :: summary

text \<open>
  The \<^verbatim>\<open>try\<close> block of \<open>execute\<close>. The two counts are taken before
  \<^verbatim>\<open>close\<close> is awaited, and the returned object is built after it.
\<close>

definition executeTry ::
  "'w sdk \<Rightarrow> environment \<Rightarrow> ScrapeConfig \<Rightarrow> ('w state, execution_result) async"
where
  "executeTry sdk env config =
     await (init sdk) (\<lambda>sessionInfo.
     await (goto sdk ''https://recordsearch.kingcounty.gov/LandmarkWeb'') (\<lambda>_.
     await (waitForTimeout sdk 3000) (\<lambda>_.
     let dates = generateDateRange (startDate config) (endDate config) in
     await (forDates sdk env config dates) (\<lambda>_.
     await (\<lambda>s. resolve
              (length (filter (\<lambda>r. truthy (s3Path r) \<and> \<not> truthy (error r)) (resultsSoFar s)),
               length (filter (\<lambda>r. truthy (error r)) (resultsSoFar s))) s)
       (\<lambda>(successful, failed).
     await (close sdk) (\<lambda>_.
     (\<lambda>s. resolve
        \<lparr>success = True, results = resultsSoFar s,
         summary = \<lparr>total = length (resultsSoFar s), successful = successful,
           failed = failed\<rparr>\<rparr> s)))))))"

text \<open>
  \<open>execute\<close>: the \<^verbatim>\<open>results\<close> array starts empty; the \<^verbatim>\<open>catch\<close> block tries to
  close the session, swallows a failure of that, and reports what the array holds.
\<close>

definition execute :: "'w sdk \<Rightarrow> environment \<Rightarrow> ScrapeConfig \<Rightarrow> 'w \<Rightarrow> execution_result \<times> 'w state" where
  "execute sdk env config w =
     (case executeTry sdk env config \<lparr>world = w, calls = [], resultsSoFar = []\<rparr> of
        (Inr r, s) \<Rightarrow> (r, s)
      | (Inl error', s) \<Rightarrow>
          (case tryCatch (close sdk) (\<lambda>closeError. resolve ()) s of
             (_, s') \<Rightarrow>
               (\<lparr>success = False, results = resultsSoFar s',
                 summary = \<lparr>total = length (resultsSoFar s'),
                   successful = length (filter (\<lambda>r. truthy (s3Path r) \<and> \<not> truthy (error r))
                     (resultsSoFar s')),
                   failed = length (filter (\<lambda>r. truthy (error r)) (resultsSoFar s')) + 1\<rparr>\<rparr>,
                s')))"

section \<open>The request handler\<close>

text \<open>The request body after \<^verbatim>\<open>RequestSchema.parse\<close>: the dates and \<^verbatim>\<open>daysBack\<close> are
  optional, the document types and the county have defaults. \<^verbatim>\<open>daysBack\<close> is taken
  to be a whole number.\<close>

record request_body =
  body_startDate :: "string option"
  body_endDate :: "string option"
  body_daysBack :: "int option"
  body_documentTypes :: "string list"
  body_county :: string

text \<open>Lines 85 to 109 of the handler: the date range and the configuration built from
  it. \<open>endNow\<close> and \<open>startNow\<close> are the two \<^verbatim>\<open>new Date()\<close> values of the
  relative branch; the two template strings of that branch are the one that
  \<open>formatDate\<close> models.\<close>

definition handlerConfig :: "jsdate \<Rightarrow> jsdate \<Rightarrow> request_body \<Rightarrow> ScrapeConfig" where
  "handlerConfig endNow startNow body =
     (let (startDate, endDate) =
        (if truthy (body_startDate body) \<and> truthy (body_endDate body)
         then (the (body_startDate body), the (body_endDate body))
         else
           let daysBack = (case body_daysBack body of
                             None \<Rightarrow> 30
                           | Some n \<Rightarrow> if n = 0 then 30 else n);
               end = endNow;
               start = setDate startNow (int (getDate startNow) - daysBack)
           in (formatDate start, formatDate end))
      in \<lparr>startDate = startDate, endDate = endDate,
          documentTypes = body_documentTypes body, county = body_county body\<rparr>)"

section \<open>The file name in the words of the specification\<close>



section \<open>Notions used in the proofs\<close>

text \<open>A relation between the state before and after that every step of a computation
  keeps, whatever the step returns.\<close>

definition keeps :: "('s \<Rightarrow> 's \<Rightarrow> bool) \<Rightarrow> ('s, 'a) async \<Rightarrow> bool" where
  "keeps R m = (\<forall>s. R s (snd (m s)))"

definition reflTrans :: "('s \<Rightarrow> 's \<Rightarrow> bool) \<Rightarrow> bool" where
  "reflTrans R = ((\<forall>s. R s s) \<and> (\<forall>a b c. R a b \<longrightarrow> R b c \<longrightarrow> R a c))"

text \<open>The calls to the collaborators leave the \<^verbatim>\<open>results\<close> array alone.\<close>

definition sameResults :: "'w state \<Rightarrow> 'w state \<Rightarrow> bool" where
  "sameResults s s' = (resultsSoFar s' = resultsSoFar s)"

text \<open>What a computation can resolve with.\<close>

definition returns :: "('a \<Rightarrow> bool) \<Rightarrow> ('s, 'a) async \<Rightarrow> bool" where
  "returns P m = (\<forall>s x s'. m s = (Inr x, s') \<longrightarrow> P x)"

text \<open>A unit that \<open>scrapeSingleDay\<close> reports as done: nothing was found, or the export
  was stored under a key that ends with the file name of the unit.\<close>

definition scraped :: "ScrapeConfig \<Rightarrow> string \<Rightarrow> string \<Rightarrow> scrape_result \<Rightarrow> bool" where
  "scraped config d t r =
     (success' r \<and> error r = None
        \<and> (s3Path r = Some ''no-records''
             \<or> (\<exists>pre. s3Path r = Some (''s3://'' @ pre @ ''-'' @ fileName config t d))))"

definition unitOf :: "unit_result \<Rightarrow> string \<times> string" where
  "unitOf r = (date r, documentType r)"

text \<open>What the loop pushes for a unit: a unit without an error carries the marker
  \<^verbatim>\<open>no-records\<close> or the locator of its export, whose key ends with the file name
  of the unit; a unit with an error carries no path.\<close>

definition recorded :: "ScrapeConfig \<Rightarrow> unit_result \<Rightarrow> bool" where
  "recorded config r =
     ((error r = None
        \<and> (s3Path r = Some ''no-records''
             \<or> (\<exists>pre. s3Path r
                   = Some (''s3://'' @ pre @ ''-'' @ fileName config (documentType r) (date r)))))
      \<or> (s3Path r = None \<and> (\<exists>message. error r = Some message)))"

definition resolved :: "(exn + 'a) \<times> 's \<Rightarrow> bool" where
  "resolved out = (\<exists>x. fst out = Inr x)"

text \<open>A loop over \<open>units\<close> extends the array by the outcomes of a prefix of them, and
  by all of them when it completes.\<close>

definition extends ::
  "ScrapeConfig \<Rightarrow> (string \<times> string) list \<Rightarrow> 'w state \<Rightarrow> (exn + unit) \<times> 'w state \<Rightarrow> bool"
where
  "extends config units s out =
     (\<exists>rs. resultsSoFar (snd out) = resultsSoFar s @ rs
        \<and> list_all (recorded config) rs
        \<and> prefix (map unitOf rs) units
        \<and> (units \<noteq> [] \<longrightarrow> rs \<noteq> [])
        \<and> (resolved out \<longrightarrow> map unitOf rs = units))"

definition countSuccessful :: "unit_result list \<Rightarrow> nat" where
  "countSuccessful rs = length (filter (\<lambda>r. truthy (s3Path r) \<and> \<not> truthy (error r)) rs)"

definition countFailed :: "unit_result list \<Rightarrow> nat" where
  "countFailed rs = length (filter (\<lambda>r. truthy (error r)) rs)"

definition plannedUnits :: "ScrapeConfig \<Rightarrow> (string \<times> string) list" where
  "plannedUnits config =
     List.product (generateDateRange (startDate config) (endDate config)) (documentTypes config)"

text \<open>What the try block leaves behind, whether it returns or throws.\<close>

definition reports ::
  "ScrapeConfig \<Rightarrow> (exn + execution_result) \<times> 'w state \<Rightarrow> bool"
where
  "reports config out =
     (let rs = resultsSoFar (snd out) in
      list_all (recorded config) rs
      \<and> prefix (map unitOf rs) (plannedUnits config)
      \<and> (case fst out of
            Inl e \<Rightarrow> True
          | Inr r \<Rightarrow> map unitOf rs = plannedUnits config
              \<and> r = \<lparr>success = True, results = rs,
                    summary = \<lparr>total = length rs, successful = countSuccessful rs,
                      failed = countFailed rs\<rparr>\<rparr>))"

section \<open>Example sessions\<close>

text \<open>
  A scripted session, for running the scraper on concrete inputs: the world counts the
  calls made; call number \<open>n\<close> (from 0) rejects when \<open>faults n\<close> names a thrown
  value, and an element is visible when \<open>visible\<close> says so.
\<close>

definition answer :: "(nat \<Rightarrow> exn option) \<Rightarrow> 'a \<Rightarrow> (nat, 'a) async" where
  "answer faults x n = (case faults n of Some e \<Rightarrow> (Inl e, n + 1) | None \<Rightarrow> (Inr x, n + 1))"

definition scripted :: "(nat \<Rightarrow> exn option) \<Rightarrow> (locator \<Rightarrow> bool) \<Rightarrow> nat sdk" where
  "scripted faults visible =
     \<lparr>stagehand_init = answer faults (),
      stagehand_close = answer faults (),
      page_goto = (\<lambda>url. answer faults ()),
      page_waitForTimeout = (\<lambda>ms. answer faults ()),
      page_waitForEvent = (\<lambda>event timeout. answer faults 1),
      page_goBack = answer faults (),
      locator_isVisible = (\<lambda>l timeout. answer faults (visible l)),
      locator_click = (\<lambda>l. answer faults ()),
      locator_press = (\<lambda>l key. answer faults ()),
      locator_fill = (\<lambda>l text. answer faults ()),
      download_createReadStream = (\<lambda>download. answer faults 2),
      stream_read = (\<lambda>stream. answer faults ''a,b''),
      s3Client_send = (\<lambda>command. answer faults ()),
      Date_toISOString = (\<lambda>n. ''2024-03-05T10:00:00.000Z''),
      Date_now = (\<lambda>n. 1709632800000 + n)\<rparr>"

definition config1 :: ScrapeConfig where
  "config1 = \<lparr>startDate = ''03/05/2024'', endDate = ''03/05/2024'',
     documentTypes = [''QUITCLAIM DEED''], county = ''king''\<rparr>"

definition config2 :: ScrapeConfig where
  "config2 = \<lparr>startDate = ''03/05/2024'', endDate = ''03/06/2024'',
     documentTypes = [''DEED'', ''QUITCLAIM DEED''], county = ''king''\<rparr>"

definition config3 :: ScrapeConfig where
  "config3 = \<lparr>startDate = ''03/06/2024'', endDate = ''03/05/2024'',
     documentTypes = [''DEED'', ''QUITCLAIM DEED''], county = ''king''\<rparr>"

definition env1 :: environment where
  "env1 = \<lparr>S3_BUCKET_NAME = Some ''records'', BROWSERBASE_SESSION_ID = None\<rparr>"

definition exportShown :: "locator \<Rightarrow> bool" where
  "exportShown l = (l = GetByRole ''link'' '' Export'')"

definition nothingShown :: "locator \<Rightarrow> bool" where
  "nothingShown l = False"

section \<open>Properties of the scraper\<close>

subsection \<open>Reasoning about awaited calls\<close>

lemma await_Inr:
  "await m f s = (Inr y, s') \<longleftrightarrow> (\<exists>x s1. m s = (Inr x, s1) \<and> f x s1 = (Inr y, s'))"
  by (auto simp: await_def split: prod.splits sum.splits)

lemma await_Inl:
  "await m f s = (Inl e, s') \<longleftrightarrow>
     m s = (Inl e, s') \<or> (\<exists>x s1. m s = (Inr x, s1) \<and> f x s1 = (Inl e, s'))"
  by (auto simp: await_def split: prod.splits sum.splits)

lemma keeps_resolve: "reflTrans R \<Longrightarrow> keeps R (resolve x)"
  by (simp add: keeps_def resolve_def reflTrans_def)

lemma keeps_reject: "reflTrans R \<Longrightarrow> keeps R (reject e)"
  by (simp add: keeps_def reject_def reflTrans_def)

lemma keeps_await:
  assumes "reflTrans R" "keeps R m" "\<And>x. keeps R (f x)"
  shows "keeps R (await m f)"
  unfolding keeps_def
proof
  fix s
  show "R s (snd (await m f s))"
  proof (cases "m s")
    case (Pair r s1)
    have 1: "R s s1" using assms(2) Pair by (auto simp: keeps_def dest: spec [of _ s])
    show ?thesis
    proof (cases r)
      case (Inl e)
      with Pair 1 show ?thesis by (simp add: await_def)
    next
      case (Inr x)
      have "R s1 (snd (f x s1))" using assms(3) by (simp add: keeps_def)
      with 1 assms(1) have "R s (snd (f x s1))" unfolding reflTrans_def by blast
      with Pair Inr show ?thesis by (simp add: await_def)
    qed
  qed
qed

lemma keeps_tryCatch:
  assumes "reflTrans R" "keeps R m" "\<And>e. keeps R (h e)"
  shows "keeps R (tryCatch m h)"
  unfolding keeps_def
proof
  fix s
  show "R s (snd (tryCatch m h s))"
  proof (cases "m s")
    case (Pair r s1)
    have 1: "R s s1" using assms(2) Pair by (auto simp: keeps_def dest: spec [of _ s])
    show ?thesis
    proof (cases r)
      case (Inr x)
      with Pair 1 show ?thesis by (simp add: tryCatch_def)
    next
      case (Inl e)
      have "R s1 (snd (h e s1))" using assms(3) by (simp add: keeps_def)
      with 1 assms(1) have "R s (snd (h e s1))" unfolding reflTrans_def by blast
      with Pair Inl show ?thesis by (simp add: tryCatch_def)
    qed
  qed
qed

lemma keeps_if:
  "keeps R m \<Longrightarrow> keeps R n \<Longrightarrow> keeps R (if b then m else n)"
  by simp

lemma reflTrans_sameResults: "reflTrans sameResults"
  by (simp add: reflTrans_def sameResults_def)

lemma sameResults_perform: "keeps sameResults (perform c operation)"
  by (simp add: keeps_def sameResults_def perform_def split: prod.splits)

lemma sameResults_calls:
  "keeps sameResults (init sdk)"
  "keeps sameResults (close sdk)"
  "keeps sameResults (goto sdk url)"
  "keeps sameResults (waitForTimeout sdk ms)"
  "keeps sameResults (waitForEvent sdk event timeout)"
  "keeps sameResults (goBack sdk)"
  "keeps sameResults (isVisible sdk l timeout)"
  "keeps sameResults (click sdk l)"
  "keeps sameResults (press sdk l k)"
  "keeps sameResults (fill sdk l t)"
  "keeps sameResults (createReadStream sdk download)"
  "keeps sameResults (readStream sdk stream)"
  "keeps sameResults (send sdk command)"
  by (simp_all add: init_def close_def goto_def waitForTimeout_def waitForEvent_def goBack_def
      isVisible_def click_def press_def fill_def createReadStream_def readStream_def send_def
      sameResults_perform)

lemmas keeps_sameResults =
  keeps_await [OF reflTrans_sameResults] keeps_tryCatch [OF reflTrans_sameResults]
  keeps_resolve [OF reflTrans_sameResults] keeps_reject [OF reflTrans_sameResults]
  keeps_if sameResults_calls

lemma sameResults_uploadFile: "keeps sameResults (uploadFile sdk env fileBuffer name)"
proof -
  have "sameResults s (snd (uploadFile sdk env fileBuffer name s))" for s
    unfolding uploadFile_def Let_def
    by (rule keeps_def [THEN iffD1, rule_format]) (intro keeps_sameResults)
  then show ?thesis by (simp add: keeps_def)
qed

lemma sameResults_fillDateField: "keeps sameResults (fillDateField sdk selector dateValue)"
  unfolding fillDateField_def Let_def by (intro keeps_sameResults)

lemma sameResults_scrapeSingleDayTry:
  "keeps sameResults (scrapeSingleDayTry sdk env config d t)"
  unfolding scrapeSingleDayTry_def Let_def
  by (intro keeps_sameResults sameResults_uploadFile sameResults_fillDateField)

lemma sameResults_scrapeSingleDay:
  "keeps sameResults (scrapeSingleDay sdk env config d t)"
  unfolding scrapeSingleDay_def
  by (intro keeps_sameResults sameResults_scrapeSingleDayTry)

lemma scrapeSingleDay_results:
  "resultsSoFar (snd (scrapeSingleDay sdk env config d t s)) = resultsSoFar s"
  using sameResults_scrapeSingleDay [of sdk env config d t]
  by (simp add: keeps_def sameResults_def)

lemma returns_resolve: "P x \<Longrightarrow> returns P (resolve x)"
  by (simp add: returns_def resolve_def)

lemma returns_reject: "returns P (reject e)"
  by (simp add: returns_def reject_def)

lemma returns_await_strong:
  assumes "returns Q m" "\<And>x. Q x \<Longrightarrow> returns P (f x)"
  shows "returns P (await m f)"
  using assms unfolding returns_def await_Inr by blast

lemma returns_await: "(\<And>x. returns P (f x)) \<Longrightarrow> returns P (await m f)"
  unfolding returns_def await_Inr by blast

lemma returns_tryCatch:
  assumes "returns P m" "\<And>e. returns P (h e)"
  shows "returns P (tryCatch m h)"
  using assms unfolding returns_def tryCatch_def
  by (auto split: prod.splits sum.splits)

lemma returns_if:
  "(b \<Longrightarrow> returns P m) \<Longrightarrow> (\<not> b \<Longrightarrow> returns P n) \<Longrightarrow> returns P (if b then m else n)"
  by simp

lemma returns_uploadFile:
  "returns (\<lambda>path. \<exists>pre. path = ''s3://'' @ pre @ ''-'' @ name)
     (uploadFile sdk env fileBuffer name)"
  unfolding returns_def uploadFile_def Let_def tryCatch_def await_def resolve_def reject_def
  by (auto split: prod.splits sum.splits)

lemma returns_await_uploadFile:
  assumes "\<And>path. \<exists>pre. path = ''s3://'' @ pre @ ''-'' @ name \<Longrightarrow> returns P (f path)"
  shows "returns P (await (uploadFile sdk env fileBuffer name) f)"
  using returns_uploadFile assms by (rule returns_await_strong)

lemma returns_scrapeSingleDayTry:
  "returns (scraped config d t) (scrapeSingleDayTry sdk env config d t)"
  unfolding scrapeSingleDayTry_def Let_def
  by (rule returns_await_uploadFile returns_await returns_if returns_resolve
        | simp add: scraped_def)+

lemma scrapeSingleDay_cases:
  obtains (finished) r s' where "scrapeSingleDayTry sdk env config d t s = (Inr r, s')"
      "scrapeSingleDay sdk env config d t s = (Inr r, s')" "scraped config d t r"
    | (caught) e s' where "scrapeSingleDayTry sdk env config d t s = (Inl e, s')"
      "scrapeSingleDay sdk env config d t s =
         (Inr \<lparr>s3Path = None, error = Some (errorMessage e), success' = False\<rparr>, s')"
proof (cases "scrapeSingleDayTry sdk env config d t s")
  case (Pair x s')
  show ?thesis
  proof (cases x)
    case (Inr r)
    with Pair returns_scrapeSingleDayTry [of config d t sdk env] have "scraped config d t r"
      by (auto simp: returns_def)
    with Pair Inr show ?thesis
      by (intro finished [of r s']) (simp_all add: scrapeSingleDay_def tryCatch_def)
  next
    case (Inl e)
    with Pair show ?thesis
      by (intro caught [of e s']) (simp_all add: scrapeSingleDay_def tryCatch_def resolve_def)
  qed
qed

subsection \<open>The loops of execute\<close>

lemma waitForTimeout_results:
  "resultsSoFar (snd (waitForTimeout sdk ms s)) = resultsSoFar s"
  using sameResults_calls(4) [of sdk ms] by (simp add: keeps_def sameResults_def)

lemma unit_step:
  obtains r s1 where "recorded config r" "unitOf r = (d, t)"
    "resultsSoFar s1 = resultsSoFar s @ [r]"
    "forDocumentTypes sdk env config d (t # ts) s =
       await (waitForTimeout sdk 2000) (\<lambda>_. forDocumentTypes sdk env config d ts) s1"
proof (cases rule: scrapeSingleDay_cases [of sdk env config d t s])
  case (finished r s')
  let ?r = "\<lparr>s3Path = s3Path r, error = error r, date = d, documentType = t\<rparr>"
  let ?s1 = "s'\<lparr>resultsSoFar := resultsSoFar s' @ [?r]\<rparr>"
  have same: "resultsSoFar s' = resultsSoFar s"
    using scrapeSingleDay_results [of sdk env config d t s] finished(2) by simp
  have "recorded config ?r"
    using finished(3) by (auto simp: recorded_def scraped_def)
  moreover have "unitOf ?r = (d, t)" by (simp add: unitOf_def)
  moreover from same have "resultsSoFar ?s1 = resultsSoFar s @ [?r]" by simp
  moreover have "forDocumentTypes sdk env config d (t # ts) s =
       await (waitForTimeout sdk 2000) (\<lambda>_. forDocumentTypes sdk env config d ts) ?s1"
    using finished(2) by (simp add: await_def push_def)
  ultimately show ?thesis by (rule that)
next
  case (caught e s')
  let ?r = "\<lparr>s3Path = None, error = Some (errorMessage e), date = d, documentType = t\<rparr>"
  let ?s1 = "s'\<lparr>resultsSoFar := resultsSoFar s' @ [?r]\<rparr>"
  have same: "resultsSoFar s' = resultsSoFar s"
    using scrapeSingleDay_results [of sdk env config d t s] caught(2) by simp
  have "recorded config ?r"
    by (simp add: recorded_def)
  moreover have "unitOf ?r = (d, t)" by (simp add: unitOf_def)
  moreover from same have "resultsSoFar ?s1 = resultsSoFar s @ [?r]" by simp
  moreover have "forDocumentTypes sdk env config d (t # ts) s =
       await (waitForTimeout sdk 2000) (\<lambda>_. forDocumentTypes sdk env config d ts) ?s1"
    using caught(2) by (simp add: await_def push_def)
  ultimately show ?thesis by (rule that)
qed

lemma forDocumentTypes_extends:
  "extends config (map (Pair d) ts) s (forDocumentTypes sdk env config d ts s)"
proof (induction ts arbitrary: s)
  case Nil
  show ?case by (simp add: extends_def resolve_def)
next
  case (Cons t ts)
  obtain r s1 where r: "recorded config r" "unitOf r = (d, t)"
    "resultsSoFar s1 = resultsSoFar s @ [r]"
    and step: "forDocumentTypes sdk env config d (t # ts) s =
       await (waitForTimeout sdk 2000) (\<lambda>_. forDocumentTypes sdk env config d ts) s1"
    by (rule unit_step)
  show ?case
  proof (cases "waitForTimeout sdk 2000 s1")
    case (Pair x s2)
    have s2: "resultsSoFar s2 = resultsSoFar s @ [r]"
      using waitForTimeout_results [of sdk 2000 s1] Pair r(3) by simp
    show ?thesis
    proof (cases x)
      case (Inl e)
      with Pair step have "forDocumentTypes sdk env config d (t # ts) s = (Inl e, s2)"
        by (simp add: await_def)
      with s2 r(1,2) show ?thesis
        by (auto simp: extends_def resolved_def intro!: exI [of _ "[r]"])
    next
      case (Inr u)
      with Pair step have eq: "forDocumentTypes sdk env config d (t # ts) s =
          forDocumentTypes sdk env config d ts s2"
        by (simp add: await_def)
      from Cons.IH [of s2] obtain rs where rs:
        "resultsSoFar (snd (forDocumentTypes sdk env config d ts s2)) = resultsSoFar s2 @ rs"
        "list_all (recorded config) rs" "prefix (map unitOf rs) (map (Pair d) ts)"
        "resolved (forDocumentTypes sdk env config d ts s2) \<longrightarrow> map unitOf rs = map (Pair d) ts"
        by (auto simp: extends_def)
      show ?thesis
        unfolding extends_def eq
        using rs s2 r(1,2) by (intro exI [of _ "r # rs"]) simp
    qed
  qed
qed

lemma product_Nil_right: "List.product xs [] = []"
  by (induction xs) simp_all

lemma forDates_extends:
  "extends config (List.product ds (documentTypes config)) s (forDates sdk env config ds s)"
proof (induction ds arbitrary: s)
  case Nil
  show ?case by (simp add: extends_def resolve_def)
next
  case (Cons d ds)
  let ?ts = "documentTypes config"
  let ?inner = "forDocumentTypes sdk env config d ?ts s"
  from forDocumentTypes_extends [of config d ?ts s sdk env] obtain rs where rs:
    "resultsSoFar (snd ?inner) = resultsSoFar s @ rs"
    "list_all (recorded config) rs" "prefix (map unitOf rs) (map (Pair d) ?ts)"
    "?ts \<noteq> [] \<longrightarrow> rs \<noteq> []"
    "resolved ?inner \<longrightarrow> map unitOf rs = map (Pair d) ?ts"
    by (auto simp: extends_def)
  show ?case
  proof (cases ?inner)
    case (Pair x s1)
    show ?thesis
    proof (cases x)
      case (Inl e)
      with Pair have "forDates sdk env config (d # ds) s = (Inl e, s1)"
        by (simp add: await_def)
      with rs Pair show ?thesis
        by (auto simp: extends_def resolved_def product_Nil_right intro!: exI [of _ rs])
    next
      case (Inr u)
      with Pair have eq: "forDates sdk env config (d # ds) s = forDates sdk env config ds s1"
        by (simp add: await_def)
      from Pair Inr rs(5) have full: "map unitOf rs = map (Pair d) ?ts"
        by (simp add: resolved_def)
      from Cons.IH [of s1] obtain rs' where rs':
        "resultsSoFar (snd (forDates sdk env config ds s1)) = resultsSoFar s1 @ rs'"
        "list_all (recorded config) rs'"
        "prefix (map unitOf rs') (List.product ds ?ts)"
        "List.product ds ?ts \<noteq> [] \<longrightarrow> rs' \<noteq> []"
        "resolved (forDates sdk env config ds s1) \<longrightarrow> map unitOf rs' = List.product ds ?ts"
        by (auto simp: extends_def)
      show ?thesis
        unfolding extends_def eq
        using rs(1,2,4) rs' Pair full
        by (intro exI [of _ "rs @ rs'"]) (auto simp: product_Nil_right)
    qed
  qed
qed

subsection \<open>The try block of execute\<close>

lemma call_results:
  "resultsSoFar (snd (init sdk s)) = resultsSoFar s"
  "resultsSoFar (snd (close sdk s)) = resultsSoFar s"
  "resultsSoFar (snd (goto sdk url s)) = resultsSoFar s"
  using sameResults_calls(1,2) [of sdk] sameResults_calls(3) [of sdk url]
  by (simp_all add: keeps_def sameResults_def)

lemma reports_await_frame:
  assumes "\<And>s. resultsSoFar (snd (m s)) = resultsSoFar s"
    and "resultsSoFar s0 = []"
    and "\<And>x s1. resultsSoFar s1 = [] \<Longrightarrow> reports config (f x s1)"
  shows "reports config (await m f s0)"
proof (cases "m s0")
  case (Pair r s1)
  then have "resultsSoFar s1 = []"
    using assms(1) [of s0] assms(2) by simp
  with Pair assms(3) show ?thesis
    by (cases r) (simp_all add: await_def reports_def)
qed

lemma reports_executeTry:
  assumes "resultsSoFar s0 = []"
  shows "reports config (executeTry sdk env config s0)"
  unfolding executeTry_def Let_def
proof (rule reports_await_frame [OF call_results(1) assms],
    rule reports_await_frame [OF call_results(3)], assumption,
    rule reports_await_frame [OF waitForTimeout_results], assumption)
  fix s3 :: "'a state"
  assume s3: "resultsSoFar s3 = []"
  let ?dates = "generateDateRange (startDate config) (endDate config)"
  let ?loop = "forDates sdk env config ?dates s3"
  let ?k = "\<lambda>_::unit. await
     (\<lambda>s. resolve (length (filter (\<lambda>r. truthy (s3Path r) \<and> \<not> truthy (error r)) (resultsSoFar s)),
          length (filter (\<lambda>r. truthy (error r)) (resultsSoFar s))) s)
     (\<lambda>(successful, failed). await (close sdk) (\<lambda>_ s. resolve
        \<lparr>success = True, results = resultsSoFar s,
         summary = \<lparr>total = length (resultsSoFar s), successful = successful,
           failed = failed\<rparr>\<rparr> s))"
  from forDates_extends [of config ?dates s3 sdk env] s3 obtain rs: 
    "list_all (recorded config) (resultsSoFar (snd ?loop))"
    "prefix (map unitOf (resultsSoFar (snd ?loop))) (plannedUnits config)"
    "resolved ?loop \<longrightarrow> map unitOf (resultsSoFar (snd ?loop)) = plannedUnits config"
    by (auto simp: extends_def plannedUnits_def)
  show "reports config (await (forDates sdk env config ?dates) ?k s3)"
  proof (cases ?loop)
    case (Pair x s4)
    show ?thesis
    proof (cases x)
      case (Inl e)
      with Pair rs show ?thesis
        by (simp add: await_def reports_def)
    next
      case (Inr u)
      with Pair rs have full: "map unitOf (resultsSoFar s4) = plannedUnits config"
        by (simp add: resolved_def)
      obtain y s5 where c: "close sdk s4 = (y, s5)" by (cases "close sdk s4")
      then have s5: "resultsSoFar s5 = resultsSoFar s4"
        using call_results(2) [of sdk s4] by simp
      from Pair Inr c s5 rs full show ?thesis
        by (cases y)
          (simp_all add: await_def resolve_def reports_def countSuccessful_def countFailed_def)
    qed
  qed
qed

subsection \<open>execute\<close>

lemma recorded_counts:
  assumes "list_all (recorded config) rs" and "\<forall>r\<in>set rs. error r \<noteq> Some []"
  shows "countSuccessful rs + countFailed rs = length rs"
    and "countFailed rs = length (filter (\<lambda>r. error r \<noteq> None) rs)"
  using assms
  by (induction rs; auto simp: recorded_def countSuccessful_def countFailed_def)+

lemma execute_normal:
  "executeTry sdk env config \<lparr>world = w, calls = [], resultsSoFar = []\<rparr> = (Inr r, s)
     \<Longrightarrow> execute sdk env config w = (r, s)"
  by (simp add: execute_def)

lemma execute_aborted:
  "executeTry sdk env config \<lparr>world = w, calls = [], resultsSoFar = []\<rparr> = (Inl e, s)
     \<Longrightarrow> execute sdk env config w =
       (\<lparr>success = False, results = resultsSoFar s,
         summary = \<lparr>total = length (resultsSoFar s),
           successful = countSuccessful (resultsSoFar s),
           failed = countFailed (resultsSoFar s) + 1\<rparr>\<rparr>,
        s\<lparr>world := snd (stagehand_close sdk (world s)), calls := calls s @ [Close]\<rparr>)"
  by (simp add: execute_def tryCatch_def close_def perform_def resolve_def
      countSuccessful_def countFailed_def split: prod.splits sum.splits)

lemma execute_cases:
  obtains (completed) rs s where
      "executeTry sdk env config \<lparr>world = w, calls = [], resultsSoFar = []\<rparr>
         = (Inr \<lparr>success = True, results = rs,
              summary = \<lparr>total = length rs, successful = countSuccessful rs,
                failed = countFailed rs\<rparr>\<rparr>, s)"
      "execute sdk env config w
         = (\<lparr>success = True, results = rs,
              summary = \<lparr>total = length rs, successful = countSuccessful rs,
                failed = countFailed rs\<rparr>\<rparr>, s)"
      "list_all (recorded config) rs" "map unitOf rs = plannedUnits config"
  | (aborted) e rs s where
      "executeTry sdk env config \<lparr>world = w, calls = [], resultsSoFar = []\<rparr> = (Inl e, s)"
      "resultsSoFar s = rs"
      "execute sdk env config w
         = (\<lparr>success = False, results = rs,
              summary = \<lparr>total = length rs, successful = countSuccessful rs,
                failed = countFailed rs + 1\<rparr>\<rparr>,
            s\<lparr>world := snd (stagehand_close sdk (world s)), calls := calls s @ [Close]\<rparr>)"
      "list_all (recorded config) rs" "prefix (map unitOf rs) (plannedUnits config)"
proof -
  let ?s0 = "\<lparr>world = w, calls = [], resultsSoFar = []\<rparr>"
  have rep: "reports config (executeTry sdk env config ?s0)"
    by (rule reports_executeTry) simp
  show ?thesis
  proof (cases "executeTry sdk env config ?s0")
    case (Pair x s)
    show ?thesis
    proof (cases x)
      case (Inr r)
      with Pair rep have r: "r = \<lparr>success = True, results = resultsSoFar s,
          summary = \<lparr>total = length (resultsSoFar s),
            successful = countSuccessful (resultsSoFar s),
            failed = countFailed (resultsSoFar s)\<rparr>\<rparr>"
        and "list_all (recorded config) (resultsSoFar s)"
        and "map unitOf (resultsSoFar s) = plannedUnits config"
        by (simp_all add: reports_def Let_def)
      with Pair Inr execute_normal [of sdk env config w r s] show ?thesis
        by (intro completed [of "resultsSoFar s" s]) simp_all
    next
      case (Inl e)
      with Pair rep have "list_all (recorded config) (resultsSoFar s)"
        and "prefix (map unitOf (resultsSoFar s)) (plannedUnits config)"
        by (simp_all add: reports_def Let_def)
      with Pair Inl execute_aborted [of sdk env config w e s] show ?thesis
        by (intro aborted [of e s "resultsSoFar s"]) simp_all
    qed
  qed
qed


subsection \<open>The file name\<close>



subsection \<open>The example sessions, evaluated\<close>

lemmas run_simps =
  execute_def executeTry_def forDates.simps forDocumentTypes.simps scrapeSingleDay_def
  scrapeSingleDayTry_def fillDateField_def uploadFile_def fileName_def
  await_def tryCatch_def resolve_def reject_def perform_def push_def Let_def
  init_def close_def goto_def waitForTimeout_def waitForEvent_def goBack_def isVisible_def
  click_def press_def fill_def createReadStream_def readStream_def send_def
  scripted_def answer_def

lemma dates1: "generateDateRange ''03/05/2024'' ''03/05/2024'' = [''03/05/2024'']"
  by code_simp

lemma dates2: "generateDateRange ''03/05/2024'' ''03/06/2024'' = [''03/05/2024'', ''03/06/2024'']"
  by code_simp

lemmas example_simps = run_simps config1_def config2_def env1_def exportShown_def
  nothingShown_def dates1 dates2


lemma run_one_failed:
  "fst (execute (scripted (map_of [(3, Error ''Timeout 5000ms exceeded'')]) nothingShown) env1 config2 0)
     = \<lparr>success = True,
        results =
          [\<lparr>s3Path = None, error = Some ''Timeout 5000ms exceeded'', date = ''03/05/2024'', documentType = ''DEED''\<rparr>,
           \<lparr>s3Path = Some ''no-records'', error = None, date = ''03/05/2024'', documentType = ''QUITCLAIM DEED''\<rparr>,
           \<lparr>s3Path = Some ''no-records'', error = None, date = ''03/06/2024'', documentType = ''DEED''\<rparr>,
           \<lparr>s3Path = Some ''no-records'', error = None, date = ''03/06/2024'', documentType = ''QUITCLAIM DEED''\<rparr>],
        summary = \<lparr>total = 4, successful = 3, failed = 1\<rparr>\<rparr>"
  by (simp add: example_simps)

lemma run_init_fails:
  "execute (scripted (map_of [(0, Error ''no session'')]) nothingShown) env1 config2 0
     = (\<lparr>success = False, results = [],
         summary = \<lparr>total = 0, successful = 0, failed = 1\<rparr>\<rparr>,
        \<lparr>world = 2, calls = [Init, Close], resultsSoFar = []\<rparr>)"
  by (simp add: example_simps)



lemma run_inverted:
  "fst (execute (scripted (map_of []) nothingShown) env1 config3 0)
     = \<lparr>success = True, results = [],
        summary = \<lparr>total = 0, successful = 0, failed = 0\<rparr>\<rparr>"
proof -
  have "generateDateRange ''03/06/2024'' ''03/05/2024'' = []" by code_simp
  then show ?thesis by (simp add: example_simps config3_def)
qed



section \<open>The claims about the scraper and the handler\<close>

text \<open>
  Claim C1, as amended. In the summary that \<open>execute\<close> returns, \<open>total\<close> is the
  length of the returned list. When the run completes (\<open>success\<close> is true),
  \<open>successful + failed = total\<close>. On every error path (\<open>success\<close> is false) the
  \<^verbatim>\<open>catch\<close> block adds one for the exception itself, so
  \<open>successful + failed = total + 1\<close>. Both are stated for lists in which no unit
  carries the empty string as its error message: the code tells a failed unit by the
  truthiness of that string.
\<close>

theorem summary_adds_up:
  assumes "\<forall>r\<in>set (results (fst (execute sdk env config w))). error r \<noteq> Some []"
  shows "successful (summary (fst (execute sdk env config w)))
       + failed (summary (fst (execute sdk env config w)))
     = total (summary (fst (execute sdk env config w)))
       + (if success (fst (execute sdk env config w)) then 0 else 1)
     \<and> total (summary (fst (execute sdk env config w)))
       = length (results (fst (execute sdk env config w)))"
proof (cases rule: execute_cases [of sdk env config w])
  case (completed rs s)
  with assms recorded_counts(1) [of config rs] show ?thesis by simp
next
  case (aborted e rs s)
  with assms recorded_counts(1) [of config rs] show ?thesis by simp
qed

theorem summary_adds_up_witness:
  "list_all (\<lambda>r. error r \<noteq> Some [])
     (results (fst (execute (scripted (map_of [(3, Error ''Timeout 5000ms exceeded'')]) nothingShown)
        env1 config2 0)))
   \<and> success (fst (execute (scripted (map_of [(3, Error ''Timeout 5000ms exceeded'')]) nothingShown)
        env1 config2 0))
   \<and> summary (fst (execute (scripted (map_of [(3, Error ''Timeout 5000ms exceeded'')]) nothingShown)
        env1 config2 0))
     = \<lparr>total = 4, successful = 3, failed = 1\<rparr>
   \<and> successful (summary (fst (execute (scripted (map_of [(3, Error ''Timeout 5000ms exceeded'')])
        nothingShown) env1 config2 0)))
     + failed (summary (fst (execute (scripted (map_of [(3, Error ''Timeout 5000ms exceeded'')])
        nothingShown) env1 config2 0)))
     = total (summary (fst (execute (scripted (map_of [(3, Error ''Timeout 5000ms exceeded'')])
        nothingShown) env1 config2 0))) + 0"
proof -
  let ?out = "fst (execute (scripted (map_of [(3, Error ''Timeout 5000ms exceeded'')]) nothingShown)
        env1 config2 0)"
  have h: "\<forall>r\<in>set (results ?out). error r \<noteq> Some []"
    unfolding run_one_failed by simp
  have s: "success ?out" unfolding run_one_failed by simp
  from summary_adds_up [OF h] s
  have "successful (summary ?out) + failed (summary ?out) = total (summary ?out) + 0"
    by simp
  moreover have "summary ?out = \<lparr>total = 4, successful = 3, failed = 1\<rparr>"
    unfolding run_one_failed by simp
  ultimately show ?thesis using h s by (simp add: list_all_iff)
qed

text \<open>
  Claim C1 as it is stated, with \<open>successful + failed = total\<close> on every path, fails
  where the session cannot be opened: the summary is then \<open>total = 0\<close>,
  \<open>successful = 0\<close>, \<open>failed = 1\<close>.
\<close>

theorem summary_sum_counterexample:
  "successful (summary (fst (execute (scripted (map_of [(0, Error ''no session'')]) nothingShown)
       env1 config2 0)))
     + failed (summary (fst (execute (scripted (map_of [(0, Error ''no session'')]) nothingShown)
       env1 config2 0)))
   \<noteq> total (summary (fst (execute (scripted (map_of [(0, Error ''no session'')]) nothingShown)
       env1 config2 0)))"
  unfolding run_init_fails by simp





text \<open>
  Claim C4. When \<^verbatim>\<open>stagehand.init()\<close> rejects, \<open>execute\<close> returns
  \<open>success = False\<close>, no results, and the summary \<open>total = 0\<close>, \<open>successful = 0\<close>,
  \<open>failed = 1\<close>, whatever the configuration plans. The only calls made are
  \<^verbatim>\<open>init\<close> and the \<^verbatim>\<open>close\<close> of the \<^verbatim>\<open>catch\<close> block.
\<close>

theorem session_open_failure:
  assumes "stagehand_init sdk w = (Inl e, w')"
  shows "fst (execute sdk env config w)
       = \<lparr>success = False, results = [],
          summary = \<lparr>total = 0, successful = 0, failed = 1\<rparr>\<rparr>
     \<and> calls (snd (execute sdk env config w)) = [Init, Close]"
proof -
  have "executeTry sdk env config \<lparr>world = w, calls = [], resultsSoFar = []\<rparr>
      = (Inl e, \<lparr>world = w', calls = [Init], resultsSoFar = []\<rparr>)"
    using assms by (simp add: executeTry_def await_def init_def perform_def)
  from execute_aborted [OF this] show ?thesis
    by (simp add: countSuccessful_def countFailed_def)
qed

theorem session_open_failure_witness:
  "stagehand_init (scripted (map_of [(0, Error ''no session'')]) nothingShown) 0
     = (Inl (Error ''no session''), 1)
   \<and> length (List.product (generateDateRange (startDate config2) (endDate config2))
        (documentTypes config2)) = 4
   \<and> fst (execute (scripted (map_of [(0, Error ''no session'')]) nothingShown) env1 config2 0)
     = \<lparr>success = False, results = [],
        summary = \<lparr>total = 0, successful = 0, failed = 1\<rparr>\<rparr>"
proof -
  have h: "stagehand_init (scripted (map_of [(0, Error ''no session'')]) nothingShown) 0
     = (Inl (Error ''no session''), 1)"
    by (simp add: scripted_def answer_def)
  from session_open_failure [OF h, of env1 config2] h show ?thesis
    by (simp add: config2_def dates2)
qed



text \<open>
  Claim C6 does not hold of the code. The \<^verbatim>\<open>close\<close> of a completed run stands
  inside the \<^verbatim>\<open>try\<close> block, so when it throws, the \<^verbatim>\<open>catch\<close> block calls
  \<^verbatim>\<open>close\<close> a second time. In the session below one day and one document type are
  scraped, every call succeeds, and only the first \<^verbatim>\<open>close\<close> (call number 23)
  throws: \<^verbatim>\<open>close\<close> is called twice for one \<^verbatim>\<open>init\<close>, and the run, with its
  only unit done, is reported as failed.
\<close>

theorem close_attempted_twice:
  "filter (\<lambda>c. c = Close)
     (calls (snd (execute (scripted (map_of [(23, Error ''close failed'')]) nothingShown)
        env1 config1 0)))
     = [Close, Close]
   \<and> filter (\<lambda>c. c = Init)
     (calls (snd (execute (scripted (map_of [(23, Error ''close failed'')]) nothingShown)
        env1 config1 0)))
     = [Init]
   \<and> fst (execute (scripted (map_of [(23, Error ''close failed'')]) nothingShown) env1 config1 0)
     = \<lparr>success = False,
        results = [\<lparr>s3Path = Some ''no-records'', error = None, date = ''03/05/2024'',
          documentType = ''QUITCLAIM DEED''\<rparr>],
        summary = \<lparr>total = 1, successful = 1, failed = 1\<rparr>\<rparr>"
  by (simp add: example_simps)



text \<open>When both dates are present and not empty, the handler uses them as they are.\<close>

lemma explicit_range_is_used:
  assumes "body_startDate body = Some s" "body_endDate body = Some e" "s \<noteq> []" "e \<noteq> []"
  shows "startDate (handlerConfig endNow startNow body) = s
     \<and> endDate (handlerConfig endNow startNow body) = e"
  using assms by (simp add: handlerConfig_def)

text \<open>
  Claim C9. When a request lacks \<^verbatim>\<open>startDate\<close> or \<^verbatim>\<open>endDate\<close>, the handler builds
  the same configuration as for the request without either date: a date given alone
  has no effect and raises no error. The range then ends today and starts
  \<^verbatim>\<open>daysBack\<close> days before today, 30 days when \<^verbatim>\<open>daysBack\<close> is absent.
\<close>

theorem lone_date_is_ignored:
  assumes "body_startDate body = None \<or> body_endDate body = None"
  shows "handlerConfig endNow startNow body
       = handlerConfig endNow startNow (body\<lparr>body_startDate := None, body_endDate := None\<rparr>)
     \<and> endDate (handlerConfig endNow startNow body) = formatDate endNow
     \<and> (\<exists>start. startDate (handlerConfig endNow startNow body) = formatDate start
          \<and> (validDate startNow \<longrightarrow> validDate start)
          \<and> timeValue start = timeValue startNow
              - (case body_daysBack body of None \<Rightarrow> 30 | Some n \<Rightarrow> if n = 0 then 30 else n))"
proof -
  let ?n = "case body_daysBack body of None \<Rightarrow> 30 | Some n \<Rightarrow> if n = 0 then 30 else n"
  let ?start = "setDate startNow (int (getDate startNow) - ?n)"
  have "\<not> (truthy (body_startDate body) \<and> truthy (body_endDate body))"
    using assms by auto
  then have cfg: "handlerConfig endNow startNow body
      = \<lparr>startDate = formatDate ?start, endDate = formatDate endNow,
         documentTypes = body_documentTypes body, county = body_county body\<rparr>"
    by (auto simp: handlerConfig_def Let_def)
  have same: "handlerConfig endNow startNow (body\<lparr>body_startDate := None, body_endDate := None\<rparr>)
      = \<lparr>startDate = formatDate ?start, endDate = formatDate endNow,
         documentTypes = body_documentTypes body, county = body_county body\<rparr>"
    by (simp add: handlerConfig_def Let_def)
  have "timeValue ?start = timeValue startNow - ?n"
    unfolding setDate_def timeValue_makeDay by (simp add: timeValue_def)
  moreover have "validDate startNow \<longrightarrow> validDate ?start"
    by (simp add: validDate_setDate)
  ultimately show ?thesis
    unfolding cfg same by auto
qed

theorem lone_date_is_ignored_witness:
  "body_endDate \<lparr>body_startDate = Some ''01/01/2024'', body_endDate = None,
       body_daysBack = None, body_documentTypes = [''DEED''], body_county = ''king''\<rparr> = None
   \<and> handlerConfig \<lparr>getFullYear = 2024, getMonth = 2, getDate = 5\<rparr>
        \<lparr>getFullYear = 2024, getMonth = 2, getDate = 5\<rparr>
        \<lparr>body_startDate = Some ''01/01/2024'', body_endDate = None,
         body_daysBack = None, body_documentTypes = [''DEED''], body_county = ''king''\<rparr>
     = \<lparr>startDate = ''02/04/2024'', endDate = ''03/05/2024'',
        documentTypes = [''DEED''], county = ''king''\<rparr>
   \<and> handlerConfig \<lparr>getFullYear = 2024, getMonth = 2, getDate = 5\<rparr>
        \<lparr>getFullYear = 2024, getMonth = 2, getDate = 5\<rparr>
        \<lparr>body_startDate = Some ''01/01/2024'', body_endDate = None,
         body_daysBack = None, body_documentTypes = [''DEED''], body_county = ''king''\<rparr>
     = handlerConfig \<lparr>getFullYear = 2024, getMonth = 2, getDate = 5\<rparr>
        \<lparr>getFullYear = 2024, getMonth = 2, getDate = 5\<rparr>
        \<lparr>body_startDate = None, body_endDate = None,
         body_daysBack = None, body_documentTypes = [''DEED''], body_county = ''king''\<rparr>"
proof -
  let ?now = "\<lparr>getFullYear = 2024, getMonth = 2, getDate = 5\<rparr>"
  let ?body = "\<lparr>body_startDate = Some ''01/01/2024'', body_endDate = None,
       body_daysBack = None, body_documentTypes = [''DEED''], body_county = ''king''\<rparr>"
  have h: "body_startDate ?body = None \<or> body_endDate ?body = None" by simp
  have v: "handlerConfig ?now ?now ?body
     = \<lparr>startDate = ''02/04/2024'', endDate = ''03/05/2024'',
        documentTypes = [''DEED''], county = ''king''\<rparr>"
    by code_simp
  have e: "handlerConfig ?now ?now ?body
     = handlerConfig ?now ?now
        \<lparr>body_startDate = None, body_endDate = None,
         body_daysBack = None, body_documentTypes = [''DEED''], body_county = ''king''\<rparr>"
    using lone_date_is_ignored [OF h, of ?now ?now, THEN conjunct1] by simp
  show ?thesis
    by (intro conjI) (simp, rule v, rule e)
qed

text \<open>
  Claim C10. When the start date parses to a day after the end date,
  \<open>generateDateRange\<close> returns the empty list and \<open>execute\<close> returns no results on
  any path. When the session opens and the navigation, the wait after it and
  \<^verbatim>\<open>close\<close> succeed, \<open>execute\<close> returns \<open>success = True\<close> and the summary
  \<open>total = 0\<close>, \<open>successful = 0\<close>, \<open>failed = 0\<close>: the inverted range is not
  reported as an error.
\<close>

theorem inverted_range_is_not_an_error:
  assumes "newDate (startDate config) = Some start" and "newDate (endDate config) = Some end"
    and "timeValue end < timeValue start"
  shows "generateDateRange (startDate config) (endDate config) = []
     \<and> results (fst (execute sdk env config w)) = []
     \<and> (\<forall>w1 w2 w3 w4.
          stagehand_init sdk w = (Inr (), w1)
          \<and> page_goto sdk ''https://recordsearch.kingcounty.gov/LandmarkWeb'' w1 = (Inr (), w2)
          \<and> page_waitForTimeout sdk 3000 w2 = (Inr (), w3)
          \<and> stagehand_close sdk w3 = (Inr (), w4) \<longrightarrow>
          fst (execute sdk env config w)
            = \<lparr>success = True, results = [],
               summary = \<lparr>total = 0, successful = 0, failed = 0\<rparr>\<rparr>)"
proof -
  have empty: "generateDateRange (startDate config) (endDate config) = []"
    using assms by (rule generateDateRange_inverted)
  then have none: "plannedUnits config = []" by (simp add: plannedUnits_def)
  have "results (fst (execute sdk env config w)) = []"
  proof (cases rule: execute_cases [of sdk env config w])
    case (completed rs s)
    with none show ?thesis by simp
  next
    case (aborted e rs s)
    with none show ?thesis by simp
  qed
  moreover have "fst (execute sdk env config w)
            = \<lparr>success = True, results = [],
               summary = \<lparr>total = 0, successful = 0, failed = 0\<rparr>\<rparr>"
    if "stagehand_init sdk w = (Inr (), w1)"
      "page_goto sdk ''https://recordsearch.kingcounty.gov/LandmarkWeb'' w1 = (Inr (), w2)"
      "page_waitForTimeout sdk 3000 w2 = (Inr (), w3)"
      "stagehand_close sdk w3 = (Inr (), w4)" for w1 w2 w3 w4
    using that empty
    by (simp add: execute_def executeTry_def await_def resolve_def perform_def init_def
        goto_def waitForTimeout_def close_def)
  ultimately show ?thesis using empty by blast
qed

theorem inverted_range_is_not_an_error_witness:
  "newDate (startDate config3) = Some \<lparr>getFullYear = 2024, getMonth = 2, getDate = 6\<rparr>
   \<and> newDate (endDate config3) = Some \<lparr>getFullYear = 2024, getMonth = 2, getDate = 5\<rparr>
   \<and> timeValue \<lparr>getFullYear = 2024, getMonth = 2, getDate = 5\<rparr>
       < timeValue \<lparr>getFullYear = 2024, getMonth = 2, getDate = 6\<rparr>
   \<and> stagehand_init (scripted (map_of []) nothingShown) 0 = (Inr (), 1)
   \<and> stagehand_close (scripted (map_of []) nothingShown) 3 = (Inr (), 4)
   \<and> generateDateRange (startDate config3) (endDate config3) = []
   \<and> fst (execute (scripted (map_of []) nothingShown) env1 config3 0)
     = \<lparr>success = True, results = [],
        summary = \<lparr>total = 0, successful = 0, failed = 0\<rparr>\<rparr>"
proof -
  let ?sdk = "scripted (map_of []) nothingShown"
  have a: "newDate (startDate config3) = Some \<lparr>getFullYear = 2024, getMonth = 2, getDate = 6\<rparr>"
    unfolding config3_def by code_simp
  have b: "newDate (endDate config3) = Some \<lparr>getFullYear = 2024, getMonth = 2, getDate = 5\<rparr>"
    unfolding config3_def by code_simp
  have c: "timeValue \<lparr>getFullYear = 2024, getMonth = 2, getDate = 5\<rparr>
       < timeValue \<lparr>getFullYear = 2024, getMonth = 2, getDate = 6\<rparr>"
    by code_simp
  have calls: "stagehand_init ?sdk 0 = (Inr (), 1)"
    "page_goto ?sdk ''https://recordsearch.kingcounty.gov/LandmarkWeb'' 1 = (Inr (), 2)"
    "page_waitForTimeout ?sdk 3000 2 = (Inr (), 3)"
    "stagehand_close ?sdk 3 = (Inr (), 4)"
    by (simp_all add: scripted_def answer_def)
  note inst = inverted_range_is_not_an_error [OF a b c, of ?sdk env1 0]
  have "fst (execute ?sdk env1 config3 0)
     = \<lparr>success = True, results = [],
        summary = \<lparr>total = 0, successful = 0, failed = 0\<rparr>\<rparr>"
    using inst [THEN conjunct2, THEN conjunct2, rule_format, of 1 2 3 4] calls by simp
  with a b c calls(1,4) inst [THEN conjunct1] show ?thesis by simp
qed

end
